theory Spec2Isabelle
  imports Main "HOL-Library.Word"
begin

section \<open>JavaScript strings\<close>

text \<open>
  A JavaScript string is a sequence of 16-bit UTF-16 code units; the regular expressions
  of the source carry no \<^verbatim>\<open>u\<close> flag, so they match code unit by code unit.
  \<open>js\<close> reads an ASCII literal of the source as such a sequence.
\<close>

type_synonym code_unit = "16 word"
type_synonym jsstring = "code_unit list"

definition js :: "string \<Rightarrow> jsstring" where
  "js s = map (\<lambda>c. word_of_nat (of_char c)) s"

definition dollar :: code_unit where "dollar = 0x24"
definition ampersand :: code_unit where "ampersand = 0x26"
definition backtick :: code_unit where "backtick = 0x60"
definition apostrophe :: code_unit where "apostrophe = 0x27"

text \<open>\<^verbatim>\<open>s.startsWith(p)\<close>\<close>

definition startsWith :: "jsstring \<Rightarrow> jsstring \<Rightarrow> bool" where
  "startsWith s p = (take (length p) s = p)"

text \<open>\<^verbatim>\<open>xs.join(sep)\<close> on an array of strings.\<close>

fun join :: "jsstring \<Rightarrow> jsstring list \<Rightarrow> jsstring" where
  "join sep [] = []"
| "join sep [x] = x"
| "join sep (x # y # ys) = x @ sep @ join sep (y # ys)"

text \<open>
  \<^verbatim>\<open>s.toLowerCase()\<close>. The program calls it only on the output of the sanitising
  replace, which is ASCII (lemma \<open>replace_sanitize_ascii\<close> below); on ASCII, lowering
  is adding \<open>0x20\<close> to the code units of \<open>A\<close>..\<open>Z\<close>. Code units outside
  ASCII are left as they are here, which is not what JavaScript does with them.
\<close>

definition lower_unit :: "code_unit \<Rightarrow> code_unit" where
  "lower_unit u = (if 0x41 \<le> u \<and> u \<le> 0x5A then u + 0x20 else u)"

definition toLowerCase :: "jsstring \<Rightarrow> jsstring" where
  "toLowerCase s = map lower_unit s"

subsection \<open>String.prototype.replace with a global regular expression\<close>

text \<open>
  The replacement argument of \<^verbatim>\<open>replace\<close> is a template, not a plain string:
  \<^verbatim>\<open>$$\<close> stands for a dollar sign, \<^verbatim>\<open>$&\<close> for the matched text,
  \<^verbatim>\<open>$`\<close> for the text before the match and \<^verbatim>\<open>$'\<close> for the text after it
  (ECMAScript, GetSubstitution). None of the source's regular expressions has a capture
  group, so \<^verbatim>\<open>$1\<close>, \<^verbatim>\<open>$<name>\<close> and a dollar before any other code unit
  stand for themselves.
\<close>

fun getSubstitution :: "jsstring \<Rightarrow> jsstring \<Rightarrow> jsstring \<Rightarrow> jsstring \<Rightarrow> jsstring" where
  "getSubstitution matched pre post [] = []"
| "getSubstitution matched pre post [c] = [c]"
| "getSubstitution matched pre post (c # d # r) =
     (if c = dollar \<and> d = dollar then dollar # getSubstitution matched pre post r
      else if c = dollar \<and> d = ampersand then matched @ getSubstitution matched pre post r
      else if c = dollar \<and> d = backtick then pre @ getSubstitution matched pre post r
      else if c = dollar \<and> d = apostrophe then post @ getSubstitution matched pre post r
      else c # getSubstitution matched pre post (d # r))"

text \<open>
  \<^verbatim>\<open>s.replace(/[...]/g, repl)\<close> for a regular expression that is one character
  class: every code unit in the class is a match. \<open>pre\<close> is the part of the subject
  already scanned (the text before the match).
\<close>

fun replace_class_g :: "(code_unit \<Rightarrow> bool) \<Rightarrow> jsstring \<Rightarrow> jsstring \<Rightarrow> jsstring \<Rightarrow> jsstring" where
  "replace_class_g cls repl pre [] = []"
| "replace_class_g cls repl pre (c # cs) =
     (if cls c then getSubstitution [c] pre cs repl @ replace_class_g cls repl (pre @ [c]) cs
      else c # replace_class_g cls repl (pre @ [c]) cs)"

text \<open>
  \<^verbatim>\<open>s.replace(/literal/g, repl)\<close> for a regular expression that is a literal text
  (\<^verbatim>\<open>/{{title}}/g\<close>: a brace that opens no quantifier is a literal): the matches are
  the occurrences found scanning from the left, each search resuming after the previous
  match. The empty pattern matches before every code unit and at the end.
\<close>

fun replace_g :: "jsstring \<Rightarrow> jsstring \<Rightarrow> jsstring \<Rightarrow> jsstring \<Rightarrow> jsstring" where
  "replace_g [] repl pre [] = getSubstitution [] pre [] repl"
| "replace_g [] repl pre (c # cs) =
     getSubstitution [] pre (c # cs) repl @ c # replace_g [] repl (pre @ [c]) cs"
| "replace_g (p # ps) repl pre [] = []"
| "replace_g (p # ps) repl pre (c # cs) =
     (if startsWith (c # cs) (p # ps)
      then getSubstitution (p # ps) pre (drop (length ps) cs) repl
           @ replace_g (p # ps) repl (pre @ p # ps) (drop (length ps) cs)
      else c # replace_g (p # ps) repl (pre @ [c]) cs)"

section \<open>Filename derivation (createMarkdown.ts, lines 130-131)\<close>

text \<open>
  The character class \<^verbatim>\<open>[a-z0-9]\<close> under the flag \<^verbatim>\<open>i\<close>. Without the
  \<^verbatim>\<open>u\<close> flag, case-insensitive matching never lets a code unit of 128 or more
  match an ASCII one, so the class is the ASCII letters of both cases and the digits.
\<close>

definition class_a_z_0_9_i :: "code_unit \<Rightarrow> bool" where
  "class_a_z_0_9_i u =
     ((0x61 \<le> u \<and> u \<le> 0x7A) \<or> (0x41 \<le> u \<and> u \<le> 0x5A) \<or> (0x30 \<le> u \<and> u \<le> 0x39))"

definition sanitizedTitle :: "jsstring \<Rightarrow> jsstring" where
  "sanitizedTitle title =
     toLowerCase (replace_class_g (\<lambda>u. \<not> class_a_z_0_9_i u) (js ''-'') [] title)"

definition fileName :: "jsstring \<Rightarrow> jsstring" where
  "fileName title = sanitizedTitle title @ js ''.md''"

text \<open>The algorithm in the words of the specification.\<close>

definition is_ascii_letter_or_digit :: "code_unit \<Rightarrow> bool" where
  "is_ascii_letter_or_digit u =
     ((0x41 \<le> u \<and> u \<le> 0x5A) \<or> (0x61 \<le> u \<and> u \<le> 0x7A) \<or> (0x30 \<le> u \<and> u \<le> 0x39))"

definition spec_fileName :: "jsstring \<Rightarrow> jsstring" where
  "spec_fileName title =
     map lower_unit (map (\<lambda>u. if is_ascii_letter_or_digit u then u else 0x2D) title) @ js ''.md''"

definition lower_digit_hyphen :: "code_unit \<Rightarrow> bool" where
  "lower_digit_hyphen u = ((0x61 \<le> u \<and> u \<le> 0x7A) \<or> (0x30 \<le> u \<and> u \<le> 0x39) \<or> u = 0x2D)"

section \<open>Templates and placeholder substitution (createMarkdown.ts, lines 24-84, 150-159)\<close>

text \<open>A template literal of the source, line by line; every line ends with a newline.\<close>

definition template_lines :: "string list \<Rightarrow> jsstring" where
  "template_lines ls = js (concat (map (\<lambda>l. l @ [CHR 0x0A]) ls))"

definition empty_template :: jsstring where
  "empty_template = []"

definition basic :: jsstring where
  "basic = template_lines
     [''# {{title}}'',
      '''',
      ''Created: {{date}}'',
      ''Tags: {{tags}}'',
      '''',
      ''## Content'',
      '''']"

definition meeting :: jsstring where
  "meeting = template_lines
     [''# Meeting: {{title}}'',
      '''',
      ''Date: {{date}}'',
      ''Participants: '',
      ''Tags: {{tags}}'',
      '''',
      ''## Agenda'',
      '''',
      ''- '',
      '''',
      ''## Notes'',
      '''',
      ''- '',
      '''',
      ''## Action Items'',
      '''',
      ''- [ ] '']"

definition blog :: jsstring where
  \<open>blog = template_lines
     [''---'',
      ''title: "{{title}}"'',
      ''date: "{{date}}"'',
      ''tags: [{{tags}}]'',
      ''draft: true'',
      ''---'',
      '''',
      ''# {{title}}'',
      '''',
      ''## Introduction'',
      '''']\<close>

definition project :: jsstring where
  "project = template_lines
     [''# Project: {{title}}'',
      '''',
      ''Start Date: {{date}}'',
      ''Status: Planning'',
      ''Tags: {{tags}}'',
      '''',
      ''## Overview'',
      '''',
      ''## Goals'',
      '''',
      ''- '',
      '''',
      ''## Timeline'',
      '''',
      ''- [ ] '',
      '''',
      ''## Resources'',
      '''',
      ''- '']"

text \<open>
  What a property read \<^verbatim>\<open>templates[template]\<close> can give: one of the five strings,
  \<^verbatim>\<open>undefined\<close>, or a member inherited from \<^verbatim>\<open>Object.prototype\<close> (the
  table is an object literal), which is a function or an object and not a string.
\<close>

datatype js_value = Str jsstring | Undefined | Inherited

definition object_prototype_keys :: "jsstring list" where
  "object_prototype_keys = map js
     [''constructor'', ''hasOwnProperty'', ''isPrototypeOf'', ''propertyIsEnumerable'',
      ''toLocaleString'', ''toString'', ''valueOf'', ''__proto__'',
      ''__defineGetter__'', ''__defineSetter__'', ''__lookupGetter__'', ''__lookupSetter__'']"

definition templates_get :: "jsstring \<Rightarrow> js_value" where
  "templates_get key =
     (if key = js ''empty'' then Str empty_template
      else if key = js ''basic'' then Str basic
      else if key = js ''meeting'' then Str meeting
      else if key = js ''blog'' then Str blog
      else if key = js ''project'' then Str project
      else if key \<in> set object_prototype_keys then Inherited
      else Undefined)"

text \<open>\<^verbatim>\<open>v || d\<close>: the empty string and \<^verbatim>\<open>undefined\<close> are falsy.\<close>

definition js_or :: "js_value \<Rightarrow> js_value \<Rightarrow> js_value" where
  "js_or v d =
     (case v of Str s \<Rightarrow> if s = [] then d else Str s | Undefined \<Rightarrow> d | Inherited \<Rightarrow> Inherited)"

text \<open>
  A thrown value: an \<^verbatim>\<open>Error\<close> object with its name and message, or any other
  value, kept as what \<^verbatim>\<open>String(value)\<close> gives.
\<close>

datatype thrown = ErrorObject jsstring jsstring | OtherValue jsstring



text \<open>\<^verbatim>\<open>now.toISOString().split("T")[0]\<close>, from the ISO text of the current time.\<close>

definition formattedDate :: "jsstring \<Rightarrow> jsstring" where
  "formattedDate now_iso = takeWhile (\<lambda>u. u \<noteq> 0x54) now_iso"

definition formattedTags :: "jsstring list \<Rightarrow> jsstring list" where
  "formattedTags tags = map (\<lambda>tag. if startsWith tag (js ''#'') then tag else js ''#'' @ tag) tags"

definition tags_replacement :: "jsstring list \<Rightarrow> jsstring" where
  "tags_replacement ft = (if length ft > 0 then join (js '', '') ft else [])"

text \<open>
  Lines 156-159. Calling \<^verbatim>\<open>replace\<close> on an inherited member, which has no such
  method, or on \<^verbatim>\<open>undefined\<close> throws a TypeError (the messages are V8's).
\<close>

definition render :: "js_value \<Rightarrow> jsstring \<Rightarrow> jsstring \<Rightarrow> jsstring list \<Rightarrow> thrown + jsstring" where
  "render content title date tags =
     (case content of
        Str c \<Rightarrow>
          Inr (replace_g (js ''{{tags}}'') (tags_replacement (formattedTags tags)) []
                (replace_g (js ''{{date}}'') date []
                  (replace_g (js ''{{title}}'') title [] c)))
      | Undefined \<Rightarrow>
          Inl (ErrorObject (js ''TypeError'')
                 (js ''Cannot read properties of undefined (reading '' @ [0x27] @ js ''replace''
                    @ [0x27] @ js '')''))
      | Inherited \<Rightarrow>
          Inl (ErrorObject (js ''TypeError'') (js ''content.replace is not a function'')))"

text \<open>Lines 150-159: the content written for a template key.\<close>

definition content_for :: "jsstring \<Rightarrow> jsstring \<Rightarrow> jsstring \<Rightarrow> jsstring list \<Rightarrow> thrown + jsstring" where
  "content_for template title now_iso tags =
     render (js_or (templates_get template) (Str basic)) title (formattedDate now_iso) tags"

section \<open>The world: the disk and the trace of calls leaving the program\<close>

datatype toast_style = Success | Failure

datatype alert_action_style = ActionDefault | ActionDestructive | ActionCancel

text \<open>
  Every call into the file system that changes it, into the host (toasts, alerts, the
  opener, the refresh callback), into a shell and onto the console is recorded, in order.
  \<open>ShowToast\<close> carries the style, title and message of the options object;
  \<open>ShowFailureToast\<close> the title and message of the object handed to
  \<^verbatim>\<open>showFailureToast\<close> of \<^verbatim>\<open>@raycast/utils\<close> (what that helper makes of
  the object is not part of the sources); \<open>ConfirmAlert\<close> the title, the message, and
  the title and style of the primary action. Showing a toast, calling the failure toast
  helper and writing to the console are taken to return.
\<close>

datatype event =
    ShowToast toast_style jsstring jsstring
  | ShowFailureToast jsstring jsstring
  | ConfirmAlert jsstring jsstring jsstring alert_action_style
  | ConsoleWarn jsstring thrown
  | ConsoleError jsstring thrown
  | Exec jsstring
  | OpenDefault jsstring
  | Mkdir jsstring
  | WriteFile jsstring jsstring
  | Unlink jsstring
  | Revalidate

record world =
  files :: "jsstring \<Rightarrow> jsstring option"
  dirs :: "jsstring set"
  events :: "event list"

definition emit :: "event \<Rightarrow> world \<Rightarrow> world" where
  "emit e w = w\<lparr>events := events w @ [e]\<rparr>"

text \<open>\<^verbatim>\<open>fs.existsSync(p)\<close>\<close>

definition existsSync :: "world \<Rightarrow> jsstring \<Rightarrow> bool" where
  "existsSync w p = (files w p \<noteq> None \<or> p \<in> dirs w)"

text \<open>
  Whether a call into the environment succeeds is not decided by the program. Each such
  call site runs at most once in an invocation, so an invocation is given the outcome of
  each: \<open>None\<close> (or \<open>Inr\<close>) when the call returns, the thrown value otherwise.
  A successful recursive \<^verbatim>\<open>mkdirSync\<close> reports the ancestors it created.
\<close>

record outcomes =
  getPreferenceValues_result :: "thrown + jsstring option"
  exec_open_a_result :: "thrown option"
  exec_typoraPath_result :: "thrown option"
  open_line_109_result :: "thrown option"
  open_line_114_result :: "thrown option"
  mkdirSync_result :: "thrown + jsstring list"
  writeFileSync_result :: "thrown option"

text \<open>
  The pure library functions and values the program reads: \<^verbatim>\<open>os.homedir()\<close>,
  \<^verbatim>\<open>path.join\<close>, \<^verbatim>\<open>path.basename\<close> and \<^verbatim>\<open>new Date().toISOString()\<close>.
\<close>

record host =
  homedir :: jsstring
  path_join :: "jsstring \<Rightarrow> jsstring \<Rightarrow> jsstring"
  path_basename :: "jsstring \<Rightarrow> jsstring"
  now_toISOString :: jsstring


definition exec :: "thrown option \<Rightarrow> jsstring \<Rightarrow> world \<Rightarrow> thrown option \<times> world" where
  "exec outcome command w = (outcome, emit (Exec command) w)"

definition open_default :: "thrown option \<Rightarrow> jsstring \<Rightarrow> world \<Rightarrow> thrown option \<times> world" where
  "open_default outcome target w = (outcome, emit (OpenDefault target) w)"



text \<open>\<^verbatim>\<open>s || d\<close> for an optional string: absent and empty are both falsy.\<close>

definition str_or :: "jsstring option \<Rightarrow> jsstring \<Rightarrow> jsstring" where
  "str_or s d = (case s of None \<Rightarrow> d | Some t \<Rightarrow> if t = [] then d else t)"

section \<open>openWithEditor (createMarkdown.ts, lines 87-116)\<close>

definition typoraPath :: jsstring where
  "typoraPath = js ''/Applications/Typora.app/Contents/MacOS/Typora''"

text \<open>The body of the outer \<^verbatim>\<open>try\<close>, lines 89-110: what it throws, if anything.\<close>

definition openWithEditor_try :: "outcomes \<Rightarrow> jsstring \<Rightarrow> world \<Rightarrow> thrown option \<times> world" where
  \<open>openWithEditor_try oc filePath w =
     (case getPreferenceValues_result oc of
        Inl e \<Rightarrow> (Some e, w)
      | Inr preference \<Rightarrow>
          let defaultEditor = str_or preference (js ''Typora'') in
          (case exec (exec_open_a_result oc)
                  (js ''open -a "'' @ defaultEditor @ js ''" "'' @ filePath @ js ''"'') w of
             (None, w1) \<Rightarrow> (None, w1)
           | (Some editorError, w1) \<Rightarrow>
               let w2 = emit (ConsoleWarn (js ''Failed to open with '' @ defaultEditor @ js '':'')
                               editorError) w1
               in if defaultEditor = js ''Typora'' \<and> existsSync w2 typoraPath
                  then exec (exec_typoraPath_result oc)
                         (js ''"'' @ typoraPath @ js ''" "'' @ filePath @ js ''"'') w2
                  else open_default (open_line_109_result oc) filePath w2))\<close>

definition openWithEditor :: "outcomes \<Rightarrow> jsstring \<Rightarrow> world \<Rightarrow> thrown option \<times> world" where
  "openWithEditor oc filePath w =
     (case openWithEditor_try oc filePath w of
        (None, w1) \<Rightarrow> (None, w1)
      | (Some error, w1) \<Rightarrow>
          open_default (open_line_114_result oc) filePath
            (emit (ConsoleError (js ''Failed to open file:'') error) w1))"

section \<open>createMarkdownFileHelper (createMarkdown.ts, lines 119-184)\<close>

record options =
  title :: jsstring
  template :: "jsstring option"
  tags :: "jsstring list option"
  targetPath :: "jsstring option"

definition baseDir :: "host \<Rightarrow> options \<Rightarrow> jsstring" where
  "baseDir h opts = str_or (targetPath opts) (path_join h (homedir h) (js ''Desktop''))"

definition filePath :: "host \<Rightarrow> options \<Rightarrow> jsstring" where
  "filePath h opts = path_join h (baseDir h opts) (fileName (title opts))"



section \<open>The delete and trash actions of a list item (FileListItem.tsx, lines 56-104)\<close>











section \<open>Notions of the specification about rendered text\<close>



section \<open>A concrete environment, for evaluating the model\<close>

definition example_host :: host where
  "example_host =
     \<lparr>homedir = js ''/Users/ada'',
      path_join = (\<lambda>a b. a @ js ''/'' @ b),
      path_basename = (\<lambda>p. rev (takeWhile (\<lambda>u. u \<noteq> 0x2F) (rev p))),
      now_toISOString = js ''2026-11-02T09:30:00.000Z''\<rparr>"

text \<open>A disk holding the Desktop directory and one note in it.\<close>

definition example_world :: world where
  "example_world =
     \<lparr>files = [js ''/Users/ada/Desktop/old.md'' \<mapsto> js ''kept''],
      dirs = {js ''/Users/ada'', js ''/Users/ada/Desktop''},
      events = []\<rparr>"

definition spawn_error :: thrown where
  "spawn_error = ErrorObject (js ''Error'') (js ''Command failed'')"

text \<open>Every call succeeds; the preferred editor is not set.\<close>

definition all_succeed :: outcomes where
  "all_succeed =
     \<lparr>getPreferenceValues_result = Inr None,
      exec_open_a_result = None,
      exec_typoraPath_result = None,
      open_line_109_result = None,
      open_line_114_result = None,
      mkdirSync_result = Inr [],
      writeFileSync_result = None\<rparr>"

definition example_options :: options where
  "example_options =
     \<lparr>title = js ''My Note'', template = None, tags = Some [js ''work'', js ''#urgent''],
      targetPath = None\<rparr>"



text \<open>How often the refresh callback has been called.\<close>

definition refreshes :: "world \<Rightarrow> nat" where
  "refreshes w = count_list (events w) Revalidate"






section \<open>Properties of the filename\<close>

lemma js_hyphen: "js ''-'' = [0x2D]"
  by (simp add: js_def)

lemma replace_sanitize_map:
  "replace_class_g (\<lambda>u. \<not> class_a_z_0_9_i u) [0x2D] pre t
     = map (\<lambda>u. if is_ascii_letter_or_digit u then u else 0x2D) t"
proof (induction t arbitrary: pre)
  case Nil
  show ?case by simp
next
  case (Cons c cs)
  have "class_a_z_0_9_i c = is_ascii_letter_or_digit c"
    by (auto simp: class_a_z_0_9_i_def is_ascii_letter_or_digit_def)
  with Cons show ?case by simp
qed

lemma replace_sanitize_ascii:
  "u \<in> set (replace_class_g (\<lambda>u. \<not> class_a_z_0_9_i u) (js ''-'') pre t) \<Longrightarrow> u < 0x80"
proof -
  assume "u \<in> set (replace_class_g (\<lambda>u. \<not> class_a_z_0_9_i u) (js ''-'') pre t)"
  then have "is_ascii_letter_or_digit u \<or> u = 0x2D"
    by (auto simp: js_hyphen replace_sanitize_map split: if_splits)
  then show ?thesis
    by (auto simp: is_ascii_letter_or_digit_def word_le_nat_alt word_less_nat_alt)
qed

lemma upper_plus_32:
  "(0x41::code_unit) \<le> u \<Longrightarrow> u \<le> 0x5A \<Longrightarrow> 0x61 \<le> u + 0x20 \<and> u + 0x20 \<le> 0x7A"
proof -
  assume "(0x41::code_unit) \<le> u" "u \<le> 0x5A"
  then have "65 \<le> unat u" "unat u \<le> 90"
    by (simp_all add: word_le_nat_alt)
  moreover have "unat (u + 0x20) = (unat u + 32) mod 65536"
    by (simp add: unat_word_ariths)
  ultimately have "unat (u + 0x20) = unat u + 32" "65 \<le> unat u" "unat u \<le> 90"
    by simp_all
  then show ?thesis
    by (simp add: word_le_nat_alt)
qed

lemma lower_unit_range:
  "is_ascii_letter_or_digit u \<or> u = 0x2D \<Longrightarrow> lower_digit_hyphen (lower_unit u)"
  unfolding is_ascii_letter_or_digit_def lower_digit_hyphen_def lower_unit_def
  using upper_plus_32 [of u] by (auto simp: word_le_nat_alt)

lemma lower_unit_idem: "lower_digit_hyphen u \<Longrightarrow> lower_unit u = u"
  unfolding lower_digit_hyphen_def lower_unit_def
  by (auto simp: word_le_nat_alt)

text \<open>
  C4. For every title, the derived filename is the title with each code unit that is not
  an ASCII letter or digit replaced by a hyphen, then lowercased, with \<^verbatim>\<open>.md\<close>
  appended. Hence the part before the extension is as long as the title and holds only
  code units of \<^verbatim>\<open>[a-z0-9-]\<close>, and lowercasing the filename changes nothing.
\<close>

theorem fileName_derivation:
  "fileName t = spec_fileName t
   \<and> length (sanitizedTitle t) = length t
   \<and> (\<forall>u \<in> set (sanitizedTitle t). lower_digit_hyphen u)
   \<and> toLowerCase (fileName t) = fileName t"
proof -
  have eq: "sanitizedTitle t
              = map lower_unit (map (\<lambda>u. if is_ascii_letter_or_digit u then u else 0x2D) t)"
    by (simp add: sanitizedTitle_def toLowerCase_def js_hyphen replace_sanitize_map)
  have range: "\<forall>u \<in> set (sanitizedTitle t). lower_digit_hyphen u"
    unfolding eq by (auto intro: lower_unit_range)
  have md: "toLowerCase (js ''.md'') = js ''.md''"
    by (simp add: toLowerCase_def js_def lower_unit_def)
  have "toLowerCase (sanitizedTitle t) = sanitizedTitle t"
    unfolding toLowerCase_def using range by (simp add: map_idI lower_unit_idem)
  then have low: "toLowerCase (fileName t) = fileName t"
    using md by (simp add: fileName_def toLowerCase_def)
  show ?thesis
    using eq range low by (simp add: fileName_def spec_fileName_def)
qed

theorem fileName_derivation_witness:
  "fileName (js ''My Note!'') = js ''my-note-.md''
   \<and> length (sanitizedTitle (js ''My Note!'')) = 8
   \<and> list_all lower_digit_hyphen (sanitizedTitle (js ''My Note!''))
   \<and> toLowerCase (fileName (js ''My Note!'')) = js ''my-note-.md''"
proof -
  have "spec_fileName (js ''My Note!'') = js ''my-note-.md''"
    by (simp add: spec_fileName_def js_def is_ascii_letter_or_digit_def lower_unit_def)
  moreover have "length (js ''My Note!'') = 8"
    by (simp add: js_def)
  moreover note fileName_derivation [of "js ''My Note!''"]
  ultimately show ?thesis
    by (auto simp: list_all_iff)
qed

section \<open>Facts about the world\<close>

lemma existsSync_emit [simp]: "existsSync (emit e w) p = existsSync w p"
  by (simp add: existsSync_def emit_def)

lemma files_emit [simp]: "files (emit e w) = files w"
  by (simp add: emit_def)

lemma dirs_emit [simp]: "dirs (emit e w) = dirs w"
  by (simp add: emit_def)

lemma events_emit [simp]: "events (emit e w) = events w @ [e]"
  by (simp add: emit_def)


lemmas example_eval =
  example_host_def example_world_def example_options_def all_succeed_def spawn_error_def
  baseDir_def filePath_def str_or_def existsSync_def


section \<open>Properties of createMarkdownFileHelper\<close>







section \<open>Properties of openWithEditor\<close>

lemma openWithEditor_try_fallback:
  assumes "getPreferenceValues_result oc = Inr preference"
    and "exec_open_a_result oc = Some editorError"
    and "str_or preference (js ''Typora'') \<noteq> js ''Typora'' \<or> \<not> existsSync w typoraPath"
  shows \<open>openWithEditor_try oc target w
           = open_default (open_line_109_result oc) target
               (emit (ConsoleWarn (js ''Failed to open with '' @ str_or preference (js ''Typora'') @ js '':'')
                        editorError)
                  (emit (Exec (js ''open -a "'' @ str_or preference (js ''Typora'') @ js ''" "''
                                 @ target @ js ''"'')) w))\<close>
  using assms by (auto simp: openWithEditor_try_def exec_def Let_def)


text \<open>
  C7. When opening with the named application fails, the preferred editor is Typora (set,
  or defaulted) and Typora's install path does not exist, the \<^verbatim>\<open>try\<close> block
  goes on to the default opener of line 109 and ends with that call's outcome: nothing
  is thrown before it. When that call returns, \<^verbatim>\<open>openWithEditor\<close> returns normally.
\<close>

theorem missing_typora_reaches_default_opener:
  assumes "getPreferenceValues_result oc = Inr preference"
    and "str_or preference (js ''Typora'') = js ''Typora''"
    and "exec_open_a_result oc = Some editorError"
    and "\<not> existsSync w typoraPath"
  shows \<open>openWithEditor_try oc target w
           = (open_line_109_result oc,
              w\<lparr>events := events w @
                 [Exec (js ''open -a "Typora" "'' @ target @ js ''"''),
                  ConsoleWarn (js ''Failed to open with Typora:'') editorError,
                  OpenDefault target]\<rparr>)
         \<and> (open_line_109_result oc = None \<longrightarrow>
              openWithEditor oc target w
                = (None,
                   w\<lparr>events := events w @
                      [Exec (js ''open -a "Typora" "'' @ target @ js ''"''),
                       ConsoleWarn (js ''Failed to open with Typora:'') editorError,
                       OpenDefault target]\<rparr>))\<close>
proof -
  have cmd: \<open>js ''open -a "'' @ js ''Typora'' @ js ''" "'' = js ''open -a "Typora" "''\<close>
    by (simp add: js_def)
  have warn: "js ''Failed to open with '' @ js ''Typora'' @ js '':'' = js ''Failed to open with Typora:''"
    by (simp add: js_def)
  have t: \<open>openWithEditor_try oc target w
           = (open_line_109_result oc,
              w\<lparr>events := events w @
                 [Exec (js ''open -a "Typora" "'' @ target @ js ''"''),
                  ConsoleWarn (js ''Failed to open with Typora:'') editorError,
                  OpenDefault target]\<rparr>)\<close>
    using assms cmd warn
    by (simp add: openWithEditor_try_fallback [where preference = preference and editorError = editorError]
          open_default_def emit_def)
  show ?thesis
    using t by (simp add: openWithEditor_def)
qed

theorem missing_typora_reaches_default_opener_witness:
  \<open>\<not> existsSync example_world typoraPath
   \<and> openWithEditor (all_succeed\<lparr>exec_open_a_result := Some spawn_error\<rparr>) (js ''/n.md'') example_world
       = (None,
          example_world\<lparr>events :=
             [Exec (js ''open -a "Typora" "/n.md"''),
              ConsoleWarn (js ''Failed to open with Typora:'') spawn_error,
              OpenDefault (js ''/n.md'')]\<rparr>)\<close>
proof -
  have e: "\<not> existsSync example_world typoraPath"
    by (simp add: example_eval typoraPath_def js_def)
  show ?thesis
    using e
      missing_typora_reaches_default_opener
        [of "all_succeed\<lparr>exec_open_a_result := Some spawn_error\<rparr>" None spawn_error example_world
            "js ''/n.md''"]
    by (simp add: all_succeed_def str_or_def example_world_def js_def)
qed

section \<open>Evaluating the rendering and the example\<close>

lemma startsWith_Nil [simp]: "startsWith s []"
  by (simp add: startsWith_def)

lemma startsWith_Nil_Cons [simp]: "startsWith [] (p # ps) = False"
  by (simp add: startsWith_def)

lemma startsWith_Cons_Cons [simp]: "startsWith (c # cs) (p # ps) = (c = p \<and> startsWith cs ps)"
  by (auto simp: startsWith_def)

lemmas render_eval =
  content_for_def render_def templates_get_def js_or_def formattedDate_def formattedTags_def
  tags_replacement_def template_lines_def basic_def meeting_def blog_def project_def
  empty_template_def object_prototype_keys_def js_def dollar_def ampersand_def backtick_def
  apostrophe_def





section \<open>The launch of the editor inside the creation\<close>






section \<open>Properties of the delete and trash actions\<close>

lemma refreshes_files [simp]: "refreshes (w\<lparr>files := fs\<rparr>) = refreshes w"
  by (simp add: refreshes_def)





section \<open>Properties of the placeholder substitution\<close>
























text \<open>
  C3 fails on the code for the key \<^verbatim>\<open>empty\<close>: the empty template is the empty
  string, which is falsy, so \<^verbatim>\<open>templates[template] || templates.basic\<close> gives the
  \<^verbatim>\<open>basic\<close> template, and the file written for the key \<^verbatim>\<open>empty\<close> is the
  one written for the key \<^verbatim>\<open>basic\<close>. A key that names a member of
  \<^verbatim>\<open>Object.prototype\<close> does not fall back to \<^verbatim>\<open>basic\<close> either: rendering
  throws.
\<close>

theorem empty_key_renders_basic:
  "content_for (js ''empty'') t now_iso ts = content_for (js ''basic'') t now_iso ts
   \<and> content_for (js ''empty'') (js ''My Note'') (js ''2026-11-02T09:30:00.000Z'') []
       = Inr (template_lines
           [''# My Note'', '''', ''Created: 2026-11-02'', ''Tags: '', '''', ''## Content'', ''''])
   \<and> content_for (js ''constructor'') (js ''My Note'') (js ''2026-11-02T09:30:00.000Z'') []
       = Inl (ErrorObject (js ''TypeError'') (js ''content.replace is not a function''))"
  by (simp add: render_eval)







end
